theory Spec2Isabelle
  imports Main "HOL-Library.Sublist"
begin

section \<open>Strings and paths\<close>

text \<open>
  The server (main.go) calls a handful of functions of Go's standard library on
  strings and paths. They are modelled here for a Unix host (separator \<open>/\<close>), following
  their documented behaviour. Strings are byte lists.
\<close>

definition HasPrefix :: "string \<Rightarrow> string \<Rightarrow> bool" where
  \<comment> \<open>strings.HasPrefix(s, pre)\<close>
  "HasPrefix s pre = prefix pre s"

fun Contains :: "string \<Rightarrow> string \<Rightarrow> bool" where
  \<comment> \<open>strings.Contains(s, substr): substr occurs somewhere in s\<close>
  "Contains [] substr = (substr = [])"
| "Contains (c # cs) substr = (prefix substr (c # cs) \<or> Contains cs substr)"

definition IsAbs :: "string \<Rightarrow> bool" where
  \<comment> \<open>filepath.IsAbs on Unix: the path begins with the separator\<close>
  "IsAbs p = prefix ''/'' p"

fun elements :: "string \<Rightarrow> string list" where
  \<comment> \<open>the path name elements: the pieces between separators (possibly empty)\<close>
  "elements [] = [[]]"
| "elements (c # cs) =
     (if c = CHR ''/'' then [] # elements cs
      else (case elements cs of [] \<Rightarrow> [[c]] | e # es \<Rightarrow> (c # e) # es))"

fun join_sep :: "string list \<Rightarrow> string" where
  \<comment> \<open>strings.Join(elems, "/")\<close>
  "join_sep [] = []"
| "join_sep [e] = e"
| "join_sep (e # es) = e @ CHR ''/'' # join_sep es"

fun clean_elems :: "bool \<Rightarrow> string list \<Rightarrow> string list \<Rightarrow> string list" where
  \<comment> \<open>the element rules of filepath.Clean; \<open>out\<close> is the output so far, last element first\<close>
  "clean_elems rooted out [] = rev out"
| "clean_elems rooted out (e # es) =
     (if e = [] \<or> e = ''.'' then clean_elems rooted out es
      else if e = ''..'' then
        (case out of
           [] \<Rightarrow> if rooted then clean_elems rooted [] es
                 else clean_elems rooted [''..''] es
         | x # xs \<Rightarrow> if x = ''..'' then clean_elems rooted (''..'' # out) es
                     else clean_elems rooted xs es)
      else clean_elems rooted (e # out) es)"

definition Clean :: "string \<Rightarrow> string" where
  \<comment> \<open>filepath.Clean: collapse separators, drop \<open>.\<close> elements, resolve inner \<open>..\<close>
      elements, drop \<open>..\<close> at the root; the empty result is \<open>.\<close>\<close>
  "Clean p =
     (let rooted = IsAbs p;
          s = (if rooted then ''/'' else []) @ join_sep (clean_elems rooted [] (elements p))
      in if s = [] then ''.'' else s)"

definition Ext :: "string \<Rightarrow> string" where
  \<comment> \<open>filepath.Ext: the suffix beginning at the final dot of the final element, or empty\<close>
  "Ext p =
     (let r = takeWhile (\<lambda>c. c \<noteq> CHR ''/'') (rev p)
      in if CHR ''.'' \<in> set r then CHR ''.'' # rev (takeWhile (\<lambda>c. c \<noteq> CHR ''.'') r) else [])"

definition Join :: "string list \<Rightarrow> string" where
  \<comment> \<open>filepath.Join: join from the first non-empty element on, then Clean\<close>
  "Join elems =
     (let es = dropWhile (\<lambda>e. e = []) elems
      in if es = [] then [] else Clean (join_sep es))"

definition HasSuffix :: "string \<Rightarrow> string \<Rightarrow> bool" where
  \<comment> \<open>strings.HasSuffix(s, suf)\<close>
  "HasSuffix s suf = suffix suf s"

definition Base :: "string \<Rightarrow> string" where
  \<comment> \<open>filepath.Base: the last element of the path, trailing separators removed\<close>
  "Base p =
     (if p = [] then ''.''
      else let q = dropWhile (\<lambda>c. c = CHR ''/'') (rev p)
           in if q = [] then ''/'' else rev (takeWhile (\<lambda>c. c \<noteq> CHR ''/'') q))"


section \<open>The response writer\<close>

text \<open>
  An http.ResponseWriter: the header map the handler edits, and what has been sent. The
  first WriteHeader (or the first Write, with status 200) sends the status and a snapshot
  of the header map; later header edits and WriteHeader calls change nothing that is sent.
\<close>

record response =
  header :: "string \<rightharpoonup> string"
  wroteHeader :: bool
  status :: nat
  sent :: "string \<rightharpoonup> string"
  body :: string

definition new_response :: response where
  "new_response =
     \<lparr>header = Map.empty, wroteHeader = False, status = 0, sent = Map.empty, body = []\<rparr>"

definition Header_Set :: "string \<Rightarrow> string \<Rightarrow> response \<Rightarrow> response" where
  "Header_Set k v w = w\<lparr>header := (header w)(k \<mapsto> v)\<rparr>"

definition Header_Del :: "string \<Rightarrow> response \<Rightarrow> response" where
  "Header_Del k w = w\<lparr>header := (header w)(k := None)\<rparr>"

definition WriteHeader :: "nat \<Rightarrow> response \<Rightarrow> response" where
  "WriteHeader code w =
     (if wroteHeader w then w
      else w\<lparr>wroteHeader := True, status := code, sent := header w\<rparr>)"

definition Write :: "string \<Rightarrow> response \<Rightarrow> response" where
  "Write bs w =
     (let w' = (if wroteHeader w then w else WriteHeader 200 w)
      in w'\<lparr>body := body w' @ bs\<rparr>)"

fun Writes :: "string list \<Rightarrow> response \<Rightarrow> response" where
  \<comment> \<open>a sequence of Write calls\<close>
  "Writes [] w = w"
| "Writes (bs # rest) w = Writes rest (Write bs w)"

definition http_Error :: "response \<Rightarrow> string \<Rightarrow> nat \<Rightarrow> response" where
  \<comment> \<open>http.Error: plain-text content type, nosniff, the status code, the message and a
      newline\<close>
  "http_Error w msg code =
     Write (msg @ [CHR 0x0A])
       (WriteHeader code
         (Header_Set ''X-Content-Type-Options'' ''nosniff''
           (Header_Set ''Content-Type'' ''text/plain; charset=utf-8''
             (Header_Del ''Content-Length'' w))))"


section \<open>The filesystem and the template engine\<close>

datatype fsnode = File string | Dir

type_synonym filesystem = "string \<rightharpoonup> fsnode"

text \<open>The filesystem calls a handler makes, in order.\<close>

datatype fsop = Stat string | ReadFile string | OpenFile string

definition os_Stat :: "filesystem \<Rightarrow> string \<Rightarrow> bool" where
  \<comment> \<open>os.Stat(p) returns a nil error\<close>
  "os_Stat fs p = (fs p \<noteq> None)"

definition os_ReadFile :: "filesystem \<Rightarrow> string \<Rightarrow> string option" where
  "os_ReadFile fs p = (case fs p of Some (File txt) \<Rightarrow> Some txt | _ \<Rightarrow> None)"

text \<open>The data handed to a template: nil, or a map from strings to strings.\<close>

datatype payload = NilData | MapData "string \<rightharpoonup> string"

text \<open>
  html/template is a parameter of the model. \<open>Parse t path txt\<close> adds the template text
  read from \<open>path\<close> (named by the path's base name) to the set \<open>t\<close> (\<open>None\<close>: no set yet)
  and fails with \<open>None\<close>. \<open>Execute\<close> and \<open>ExecuteTemplate\<close> return the chunks written to
  the response, in order, and whether execution ended without an error.
\<close>

record 't engine =
  Parse :: "'t option \<Rightarrow> string \<Rightarrow> string \<Rightarrow> 't option"
  Execute :: "'t \<Rightarrow> payload \<Rightarrow> string list \<times> bool"
  ExecuteTemplate :: "'t \<Rightarrow> string \<Rightarrow> payload \<Rightarrow> string list \<times> bool"

fun parse_loop ::
  "'t engine \<Rightarrow> filesystem \<Rightarrow> 't option \<Rightarrow> string list \<Rightarrow> fsop list \<times> 't option" where
  "parse_loop eng fs t [] = ([], t)"
| "parse_loop eng fs t (p # ps) =
     (case os_ReadFile fs p of
        None \<Rightarrow> ([ReadFile p], None)
      | Some txt \<Rightarrow>
          (case Parse eng t p txt of
             None \<Rightarrow> ([ReadFile p], None)
           | Some t' \<Rightarrow>
               (case parse_loop eng fs (Some t') ps of
                  (ops, r) \<Rightarrow> (ReadFile p # ops, r))))"

definition ParseFiles ::
  "'t engine \<Rightarrow> filesystem \<Rightarrow> string list \<Rightarrow> fsop list \<times> 't option" where
  \<comment> \<open>template.ParseFiles: read and parse each file in turn, stop at the first error\<close>
  "ParseFiles eng fs paths = (if paths = [] then ([], None) else parse_loop eng fs None paths)"


section \<open>render\<close>

text \<open>
  render (main.go, lines 16 to 62) returns the response it leaves behind together with
  the filesystem calls it made, in order. Its log lines leave the response untouched
  and are left out. The fall-through to the standalone rendering, which the source
  reaches from two places, is the function \<open>render_fallback\<close>.
\<close>

definition run_template :: "response \<Rightarrow> string list \<times> bool \<Rightarrow> response" where
  \<comment> \<open>the execution writes its chunks; on an error, "render error" with status 500\<close>
  "run_template w r =
     (case r of (chunks, ok) \<Rightarrow>
        let w' = Writes chunks w
        in if ok then w' else http_Error w' ''render error'' 500)"

definition render_fallback ::
  "'t engine \<Rightarrow> filesystem \<Rightarrow> response \<Rightarrow> string \<Rightarrow> payload \<Rightarrow> response \<times> fsop list" where
  \<comment> \<open>main.go, lines 50 to 61: the standalone file under view/\<close>
  "render_fallback eng fs w fullPath data =
     (case ParseFiles eng fs [fullPath] of
        (ops, None) \<Rightarrow> (http_Error w ''template error'' 500, ops)
      | (ops, Some tmpl) \<Rightarrow> (run_template w (Execute eng tmpl data), ops))"

definition render ::
  "'t engine \<Rightarrow> filesystem \<Rightarrow> response \<Rightarrow> string \<Rightarrow> payload \<Rightarrow> response \<times> fsop list" where
  "render eng fs w0 filename data =
     (let w = Header_Set ''Content-Type'' ''text/html; charset=utf-8'' w0;
          clean = Clean filename
      in if Ext clean \<noteq> ''.html'' then (http_Error w ''not found'' 404, [])
         else if Contains clean ''..'' \<or> IsAbs clean then (http_Error w ''not found'' 404, [])
         else
           let fullPath = Join [''view'', clean]
           in if HasPrefix clean ''pages/'' then
                (let base = Join [''view'', ''layout'', ''base.html'']
                 in if os_Stat fs fullPath then
                      (case ParseFiles eng fs [base, fullPath] of
                         (ops, None) \<Rightarrow>
                           (http_Error w ''template error'' 500, Stat fullPath # ops)
                       | (ops, Some tmpl) \<Rightarrow>
                           (run_template w (ExecuteTemplate eng tmpl ''base'' data),
                            Stat fullPath # ops))
                    else
                      (case render_fallback eng fs w fullPath data of
                         (w', ops) \<Rightarrow> (w', Stat fullPath # ops)))
              else render_fallback eng fs w fullPath data)"


section \<open>Requests, the authentication middleware and the routes\<close>

text \<open>
  A request, as far as the handlers read it: the URL path, the result of
  \<open>req.BasicAuth()\<close> (\<open>None\<close> when the Authorization header is absent or malformed), and
  the route variables the router stores on a match (\<open>mux.Vars\<close>).
\<close>

record request =
  url_path :: string
  basic_auth :: "(string \<times> string) option"
  vars :: "string \<rightharpoonup> string"

type_synonym handler = "request \<Rightarrow> response \<Rightarrow> response \<times> fsop list"

definition BasicAuth :: "request \<Rightarrow> string \<times> string \<times> bool" where
  "BasicAuth req =
     (case basic_auth req of None \<Rightarrow> ([], [], False) | Some (u, p) \<Rightarrow> (u, p, True))"

definition Getenv :: "(string \<rightharpoonup> string) \<Rightarrow> string \<Rightarrow> string" where
  \<comment> \<open>os.Getenv: the empty string when the variable is unset\<close>
  "Getenv env k = (case env k of None \<Rightarrow> [] | Some v \<Rightarrow> v)"

definition authMiddleware :: "(string \<rightharpoonup> string) \<Rightarrow> handler \<Rightarrow> handler" where
  "authMiddleware env next =
     (let u = Getenv env ''BASIC_USER'';
          expectedUser = (if u = [] then ''admin'' else u);
          p = Getenv env ''BASIC_PASS'';
          expectedPass = (if p = [] then ''0987654321'' else p)
      in (\<lambda>req w.
            case BasicAuth req of (user, pass, ok) \<Rightarrow>
              if \<not> ok \<or> user \<noteq> expectedUser \<or> pass \<noteq> expectedPass then
                (http_Error (Header_Set ''WWW-Authenticate'' ''Basic realm=Restricted'' w)
                   ''Unauthorized'' 401, [])
              else next req w))"

text \<open>
  The router (gorilla/mux), as main.go configures it: routes are tried in the order of
  registration; \<open>PathPrefix\<close> matches a prefix of the path, \<open>Path\<close> the whole path, and
  \<open>PathVar pre name\<close> stands for the template \<open>pre{name}\<close>, whose variable matches one
  non-empty path segment. Before any route is tried, a request whose path is not in
  canonical form (\<open>cleanPath\<close>) is answered with a redirect to the canonical path. The
  middleware wraps the handler of the matched route; a path that matches no route gets
  the router's not-found reply. A request is a GET request whose URL is its path.
\<close>

datatype matcher = PathPrefix string | Path string | PathVar string string

fun match_route :: "matcher \<Rightarrow> string \<Rightarrow> (string \<rightharpoonup> string) option" where
  "match_route (PathPrefix pre) p = (if HasPrefix p pre then Some Map.empty else None)"
| "match_route (Path lit) p = (if p = lit then Some Map.empty else None)"
| "match_route (PathVar pre name) p =
     (let s = drop (length pre) p
      in if HasPrefix p pre \<and> s \<noteq> [] \<and> CHR ''/'' \<notin> set s
         then Some (Map.empty(name \<mapsto> s)) else None)"

fun Match :: "(matcher \<times> handler) list \<Rightarrow> string \<Rightarrow> (handler \<times> (string \<rightharpoonup> string)) option" where
  "Match [] p = None"
| "Match ((m, h) # rs) p =
     (case match_route m p of Some vs \<Rightarrow> Some (h, vs) | None \<Rightarrow> Match rs p)"

definition NotFound :: handler where
  \<comment> \<open>http.NotFound\<close>
  "NotFound req w = (http_Error w ''404 page not found'' 404, [])"

definition TrimPrefix :: "string \<Rightarrow> string \<Rightarrow> string" where
  "TrimPrefix s pre = (if HasPrefix s pre then drop (length pre) s else s)"

definition StripPrefix :: "string \<Rightarrow> handler \<Rightarrow> handler" where
  \<comment> \<open>http.StripPrefix, for a non-empty prefix\<close>
  "StripPrefix pre h =
     (\<lambda>req w.
        let p = TrimPrefix (url_path req) pre
        in if length p < length (url_path req) then h (req\<lparr>url_path := p\<rparr>) w
           else NotFound req w)"

definition page :: "'t engine \<Rightarrow> filesystem \<Rightarrow> string \<Rightarrow> handler" where
  \<comment> \<open>the handlers of the fixed pages: render(w, name, nil)\<close>
  "page eng fs name = (\<lambda>req w. render eng fs w name NilData)"

definition blog_detail :: "'t engine \<Rightarrow> filesystem \<Rightarrow> handler" where
  \<comment> \<open>the handler of /blog/{slug}, main.go lines 96 to 102\<close>
  "blog_detail eng fs =
     (\<lambda>req w.
        let data = MapData (Map.empty(''Slug'' \<mapsto> (case vars req ''slug'' of None \<Rightarrow> [] | Some v \<Rightarrow> v)))
        in render eng fs w ''pages/blogDetails.html'' data)"

text \<open>
  http.FileServer is a parameter: \<open>fileServer dir fs\<close> is the handler that serves the
  directory \<open>dir\<close> of the filesystem \<open>fs\<close>.
\<close>

definition routes ::
  "'t engine \<Rightarrow> (string \<Rightarrow> filesystem \<Rightarrow> handler) \<Rightarrow> filesystem \<Rightarrow> (matcher \<times> handler) list" where
  "routes eng fileServer fs =
     [(PathPrefix ''/public/'', StripPrefix ''/public/'' (fileServer ''public'' fs)),
      (Path ''/'', page eng fs ''pages/index.html''),
      (Path ''/about-us'', page eng fs ''pages/about-us.html''),
      (Path ''/services'', page eng fs ''pages/our-services.html''),
      (Path ''/training'', page eng fs ''pages/training.html''),
      (Path ''/blog'', page eng fs ''pages/bloglisting.html''),
      (PathVar ''/blog/'' ''slug'', blog_detail eng fs),
      (Path ''/contact'', page eng fs ''pages/contact_us.html''),
      (Path ''/linux-commands'', page eng fs ''pages/linux-commands.html''),
      (Path ''/linux-directory-structure'', page eng fs ''pages/linux-directory-structure.html''),
      (Path ''/linux-permissions'', page eng fs ''pages/linux-permissions.html''),
      (Path ''/golang-project-structure'', page eng fs ''pages/golang-project-structure.html''),
      (Path ''/golang-create-project'', page eng fs ''pages/golang-create-project.html''),
      (Path ''/server'', page eng fs ''pages/server.html''),
      (Path ''/under-development'', page eng fs ''under-development.html''),
      (Path ''/golang'', page eng fs ''pages/roadmaps/golang-roadmap.html''),
      (Path ''/devops'', page eng fs ''pages/roadmaps/devops-roadmap.html''),
      (Path ''/project-manager'', page eng fs ''pages/project-manager-roadmap.html''),
      (Path ''/ai-ml'', page eng fs ''pages/ai-ml-roadmap.html'')]"

definition cleanPath :: "string \<Rightarrow> string" where
  \<comment> \<open>the router's canonical form of a path: rooted, cleaned, a trailing slash kept\<close>
  "cleanPath p =
     (if p = [] then ''/''
      else let q = (if hd p \<noteq> CHR ''/'' then CHR ''/'' # p else p);
               np = Clean q
           in if last q = CHR ''/'' \<and> np \<noteq> ''/'' then np @ ''/'' else np)"

definition ServeHTTP ::
  "(string \<rightharpoonup> string) \<Rightarrow> 't engine \<Rightarrow> (string \<Rightarrow> filesystem \<Rightarrow> handler) \<Rightarrow> filesystem \<Rightarrow> handler" where
  \<comment> \<open>the router as the server's handler: the redirect to the canonical path, else
      match, then the middleware around the match\<close>
  "ServeHTTP env eng fileServer fs =
     (\<lambda>req w.
        if cleanPath (url_path req) \<noteq> url_path req then
          (WriteHeader 301 (Header_Set ''Location'' (cleanPath (url_path req)) w), [])
        else
          case Match (routes eng fileServer fs) (url_path req) of
            None \<Rightarrow> NotFound req w
          | Some (h, vs) \<Rightarrow> authMiddleware env h (req\<lparr>vars := vs\<rparr>) w)"

section \<open>The file server\<close>

text \<open>
  http.FileServer(http.Dir(root)), for a GET request without conditional or range
  headers. Two things are parameters: the header map a served file gets (content type,
  length, modification time, accepted ranges), as a function of the header map before,
  the file's name and its bytes; and what is served for a directory.
\<close>

record fileLib =
  fileHeaders :: "(string \<rightharpoonup> string) \<Rightarrow> string \<Rightarrow> string \<Rightarrow> (string \<rightharpoonup> string)"
  serveDir :: "string \<Rightarrow> filesystem \<Rightarrow> handler"

definition localRedirect :: "response \<Rightarrow> string \<Rightarrow> response" where
  "localRedirect w newPath = WriteHeader 301 (Header_Set ''Location'' newPath w)"

definition serveContent :: "fileLib \<Rightarrow> string \<Rightarrow> string \<Rightarrow> response \<Rightarrow> response" where
  \<comment> \<open>the file's headers, status 200, then the bytes of the file as they are\<close>
  "serveContent lib name bytes w =
     (let w' = WriteHeader 200 (w\<lparr>header := fileHeaders lib (header w) name bytes\<rparr>)
      in if bytes = [] then w' else Write bytes w')"

definition FileServer :: "fileLib \<Rightarrow> string \<Rightarrow> filesystem \<Rightarrow> handler" where
  "FileServer lib root fs =
     (\<lambda>req w.
        let upath = (if HasPrefix (url_path req) ''/'' then url_path req
                     else ''/'' @ url_path req);
            name = Clean upath
        in if HasSuffix upath ''/index.html'' then (localRedirect w ''./'', [])
           else
             let full = Join [root, name]
             in case fs full of
                  None \<Rightarrow> (http_Error w ''404 page not found'' 404, [OpenFile full])
                | Some Dir \<Rightarrow>
                    (case serveDir lib root fs (req\<lparr>url_path := upath\<rparr>) w of
                       (w', ops) \<Rightarrow> (w', OpenFile full # ops))
                | Some (File bytes) \<Rightarrow>
                    if last upath = CHR ''/'' then
                      (localRedirect w (''../'' @ Base upath), [OpenFile full])
                    else (serveContent lib (Base full) bytes w,
                          [OpenFile full, ReadFile full]))"


section \<open>A fragment of the template engine\<close>

text \<open>
  The part of html/template that layouts and pages of plain text need, for evaluating
  the model at concrete inputs: text, \<open>{{define "name"}} ... {{end}}\<close> and
  \<open>{{template "name" .}}\<close>. Any other action is outside the fragment and does not
  parse here. A template set is the name of the first file parsed and the named
  bodies, the latest first. Text is written as it stands (html/template rewrites text
  only where it holds markup), and the payload is not read.
\<close>

datatype node = Text string | Call string

datatype token = TText string | TDefine string | TEnd | TCall string | TBad

type_synonym tset = "string \<times> (string \<times> node list) list"

definition quoted :: "string \<Rightarrow> string" where
  "quoted s = CHR 0x22 # s @ [CHR 0x22]"

definition define_block :: "string \<Rightarrow> string \<Rightarrow> string" where
  \<comment> \<open>the text \<open>{{define "name"}}txt{{end}}\<close>\<close>
  "define_block name txt = ''{{define '' @ quoted name @ ''}}'' @ txt @ ''{{end}}''"

definition template_call :: "string \<Rightarrow> string" where
  \<comment> \<open>the text \<open>{{template "name" .}}\<close>\<close>
  "template_call name = ''{{template '' @ quoted name @ '' .}}''"

definition unquote :: "string \<Rightarrow> string option" where
  "unquote q =
     (if 2 \<le> length q \<and> hd q = CHR 0x22 \<and> last q = CHR 0x22
         \<and> CHR 0x22 \<notin> set (butlast (tl q))
      then Some (butlast (tl q)) else None)"

definition action :: "string \<Rightarrow> token" where
  \<comment> \<open>the action between \<open>{{\<close> and \<open>}}\<close>\<close>
  "action a =
     (if a = ''end'' then TEnd
      else if prefix ''define '' a then
        (case unquote (drop (length ''define '') a) of
           Some n \<Rightarrow> TDefine n | None \<Rightarrow> TBad)
      else if prefix ''template '' a \<and> suffix '' .'' a then
        (case unquote (drop (length ''template '') (take (length a - length '' .'') a)) of
           Some n \<Rightarrow> TCall n | None \<Rightarrow> TBad)
      else TBad)"

definition flush :: "string \<Rightarrow> token list" where
  \<comment> \<open>the text gathered so far (kept last character first), if any\<close>
  "flush acc = (if acc = [] then [] else [TText (rev acc)])"

fun lex_text :: "string \<Rightarrow> string \<Rightarrow> token list"
  and lex_action :: "string \<Rightarrow> string \<Rightarrow> token list" where
  "lex_text acc [] = flush acc"
| "lex_text acc [c] = flush (c # acc)"
| "lex_text acc (c # c' # cs) =
     (if c = CHR ''{'' \<and> c' = CHR ''{'' then flush acc @ lex_action [] cs
      else lex_text (c # acc) (c' # cs))"
| "lex_action acc [] = [TBad]"
| "lex_action acc [c] = [TBad]"
| "lex_action acc (c # c' # cs) =
     (if c = CHR ''}'' \<and> c' = CHR ''}'' then action (rev acc) # lex_text [] cs
      else lex_action (c # acc) (c' # cs))"

fun build ::
  "(string \<times> node list) option \<Rightarrow> node list \<Rightarrow> (string \<times> node list) list \<Rightarrow> token list
     \<Rightarrow> (node list \<times> (string \<times> node list) list) option" where
  \<comment> \<open>\<open>cur\<close>: the open definition; \<open>outer\<close>: the nodes outside definitions; both kept
      last node first\<close>
  "build cur outer defs [] =
     (case cur of None \<Rightarrow> Some (rev outer, rev defs) | Some _ \<Rightarrow> None)"
| "build cur outer defs (TText s # ts) =
     (case cur of None \<Rightarrow> build None (Text s # outer) defs ts
      | Some (n, b) \<Rightarrow> build (Some (n, Text s # b)) outer defs ts)"
| "build cur outer defs (TCall c # ts) =
     (case cur of None \<Rightarrow> build None (Call c # outer) defs ts
      | Some (n, b) \<Rightarrow> build (Some (n, Call c # b)) outer defs ts)"
| "build cur outer defs (TDefine n # ts) =
     (case cur of None \<Rightarrow> build (Some (n, [])) outer defs ts | Some _ \<Rightarrow> None)"
| "build cur outer defs (TEnd # ts) =
     (case cur of None \<Rightarrow> None | Some (n, b) \<Rightarrow> build None outer ((n, rev b) # defs) ts)"
| "build cur outer defs (TBad # ts) = None"

definition is_space :: "char \<Rightarrow> bool" where
  "is_space c = (c \<in> {CHR '' '', CHR 0x09, CHR 0x0A, CHR 0x0B, CHR 0x0C, CHR 0x0D})"

fun empty_body :: "node list \<Rightarrow> bool" where
  "empty_body [] = True"
| "empty_body (Text s # ns) = (list_all is_space s \<and> empty_body ns)"
| "empty_body (Call c # ns) = False"

definition add_template ::
  "string \<times> node list \<Rightarrow> (string \<times> node list) list \<Rightarrow> (string \<times> node list) list" where
  \<comment> \<open>an empty body does not replace a template that exists\<close>
  "add_template nb ds =
     (if empty_body (snd nb) \<and> map_of ds (fst nb) \<noteq> None then ds else nb # ds)"

definition parse_template :: "tset option \<Rightarrow> string \<Rightarrow> string \<Rightarrow> tset option" where
  \<comment> \<open>\<open>t.New(filepath.Base(path)).Parse(txt)\<close>: the nodes outside definitions are the
      template named after the file\<close>
  "parse_template t path txt =
     (case build None [] [] (lex_text [] txt) of
        None \<Rightarrow> None
      | Some (outer, defs) \<Rightarrow>
          Some (case t of None \<Rightarrow> Base path | Some (first, ds) \<Rightarrow> first,
                foldr add_template ((Base path, outer) # defs)
                  (case t of None \<Rightarrow> [] | Some (first, ds) \<Rightarrow> ds)))"

fun calls_defined :: "nat \<Rightarrow> (string \<times> node list) list \<Rightarrow> node list \<Rightarrow> bool" where
  \<comment> \<open>every template called, down to the depth \<open>n\<close>, exists\<close>
  "calls_defined n ds [] = True"
| "calls_defined n ds (Text s # ns) = calls_defined n ds ns"
| "calls_defined n ds (Call c # ns) =
     (if n = 0 then True
      else (case map_of ds c of
              None \<Rightarrow> False
            | Some b \<Rightarrow> calls_defined (n - 1) ds b \<and> calls_defined n ds ns))"

fun exec :: "nat \<Rightarrow> (string \<times> node list) list \<Rightarrow> node list \<Rightarrow> string list \<times> bool" where
  \<comment> \<open>the chunks written, and whether the execution ended without an error\<close>
  "exec n ds [] = ([], True)"
| "exec n ds (Text s # ns) = (case exec n ds ns of (cs, ok) \<Rightarrow> (s # cs, ok))"
| "exec n ds (Call c # ns) =
     (if n = 0 then ([], False)
      else (case map_of ds c of
              None \<Rightarrow> ([], False)
            | Some b \<Rightarrow>
                (case exec (n - 1) ds b of
                   (cs, ok) \<Rightarrow>
                     if ok then (case exec n ds ns of (cs', ok') \<Rightarrow> (cs @ cs', ok'))
                     else (cs, False))))"

definition execute_named :: "(string \<times> node list) list \<Rightarrow> string \<Rightarrow> string list \<times> bool" where
  \<comment> \<open>a missing template, here or in a call, is an error before anything is written\<close>
  "execute_named ds name =
     (case map_of ds name of
        None \<Rightarrow> ([], False)
      | Some b \<Rightarrow> if calls_defined 100 ds b then exec 100 ds b else ([], False))"

definition sample_engine :: "tset engine" where
  "sample_engine =
     \<lparr>Parse = parse_template,
      Execute = (\<lambda>t d. execute_named (snd t) (fst t)),
      ExecuteTemplate = (\<lambda>t name d. execute_named (snd t) name)\<rparr>"

text \<open>A filesystem, a file server library and an environment for concrete inputs.\<close>

definition sample_fs :: filesystem where
  "sample_fs =
     [''view/layout/base.html'' \<mapsto>
        File (define_block ''base'' (''[site] '' @ template_call ''content'' @ '' [/site]'')),
      ''view/pages/index.html'' \<mapsto> File (define_block ''content'' ''home''),
      ''view/pages/readme.txt'' \<mapsto> File ''notes'',
      ''view/under-development.html'' \<mapsto> File ''soon'',
      ''view/pages/roadmaps'' \<mapsto> Dir,
      ''public/images/logo.png'' \<mapsto> File ''PNG'']"

definition pages_only_fs :: filesystem where
  \<comment> \<open>a templates directory without the base layout\<close>
  "pages_only_fs = [''view/pages/index.html'' \<mapsto> File ''<h1>home</h1>'']"

definition sample_lib :: fileLib where
  \<comment> \<open>no header beyond those set before; a directory has no listing here\<close>
  "sample_lib =
     \<lparr>fileHeaders = (\<lambda>h name bytes. h),
      serveDir = (\<lambda>root fs req w. (http_Error w ''404 page not found'' 404, []))\<rparr>"


definition sample_env :: "string \<rightharpoonup> string" where
  "sample_env = [''BASIC_USER'' \<mapsto> ''alice'', ''BASIC_PASS'' \<mapsto> ''secret'']"

definition sample_request :: "string \<Rightarrow> (string \<times> string) option \<Rightarrow> request" where
  "sample_request p cred = \<lparr>url_path = p, basic_auth = cred, vars = Map.empty\<rparr>"


section \<open>Facts about paths and the response writer\<close>

lemma hd_elements_prefix: "prefix (hd (elements s)) s"
  by (induction s) (auto split: list.splits)

lemma elements_nonempty: "elements s \<noteq> []"
  by (induction s) (auto split: list.splits)

text \<open>A path name element of a path is a substring of it.\<close>

lemma element_Contains: "e \<in> set (elements s) \<Longrightarrow> Contains s e"
proof (induction s)
  case Nil
  then show ?case by simp
next
  case (Cons c cs)
  show ?case
  proof (cases "c = CHR ''/''")
    case True
    with Cons show ?thesis by auto
  next
    case False
    obtain x xs where ex: "elements cs = x # xs"
      using elements_nonempty[of cs] by (cases "elements cs") auto
    have px: "prefix x cs" using hd_elements_prefix[of cs] ex by simp
    from Cons.prems False ex have "e = c # x \<or> e \<in> set xs" by simp
    then show ?thesis
    proof
      assume "e = c # x"
      with px show ?thesis by simp
    next
      assume "e \<in> set xs"
      with ex Cons.IH show ?thesis by simp
    qed
  qed
qed

lemma Header_Set_fields [simp]:
  "wroteHeader (Header_Set k v w) = wroteHeader w"
  "status (Header_Set k v w) = status w"
  "body (Header_Set k v w) = body w"
  "sent (Header_Set k v w) = sent w"
  "header (Header_Set k v w) = (header w)(k \<mapsto> v)"
  by (simp_all add: Header_Set_def)

text \<open>http.Error on a response of which nothing has been sent yet.\<close>

lemma http_Error_fresh:
  assumes "\<not> wroteHeader w"
  shows "wroteHeader (http_Error w msg code)"
    and "status (http_Error w msg code) = code"
    and "body (http_Error w msg code) = body w @ msg @ [CHR 0x0A]"
    and "sent (http_Error w msg code) =
           (header w)(''Content-Length'' := None,
                      ''Content-Type'' \<mapsto> ''text/plain; charset=utf-8'',
                      ''X-Content-Type-Options'' \<mapsto> ''nosniff'')"
  using assms
  by (simp_all add: http_Error_def Write_def WriteHeader_def Header_Set_def Header_Del_def)

text \<open>http.Error after the header has been sent: only the message is appended.\<close>

lemma http_Error_sent:
  assumes "wroteHeader w"
  shows "wroteHeader (http_Error w msg code)"
    and "status (http_Error w msg code) = status w"
    and "body (http_Error w msg code) = body w @ msg @ [CHR 0x0A]"
    and "sent (http_Error w msg code) = sent w"
  using assms
  by (simp_all add: http_Error_def Write_def WriteHeader_def Header_Set_def Header_Del_def)

lemma new_response_fields [simp]:
  "\<not> wroteHeader new_response"
  "body new_response = []"
  "header new_response = Map.empty"
  by (simp_all add: new_response_def)

text \<open>The two validation checks of render, lines 21 to 28.\<close>

lemma render_invalid:
  assumes "Ext (Clean f) \<noteq> ''.html'' \<or> Contains (Clean f) ''..'' \<or> IsAbs (Clean f)"
  shows "render eng fs w f d =
           (http_Error (Header_Set ''Content-Type'' ''text/html; charset=utf-8'' w)
              ''not found'' 404, [])"
  using assms by (auto simp: render_def Let_def)


text \<open>The template fragment on the files of the examples.\<close>

lemmas fragment_defs =
  sample_engine_def parse_template_def flush_def action_def unquote_def Base_def
  add_template_def execute_named_def is_space_def quoted_def define_block_def
  template_call_def

lemma parse_soon:
  "Parse sample_engine None ''view/under-development.html'' ''soon''
     = Some (''under-development.html'', [(''under-development.html'', [Text ''soon''])])"
  by (simp add: fragment_defs)

lemma exec_soon:
  "Execute sample_engine
       (''under-development.html'', [(''under-development.html'', [Text ''soon''])]) d
     = ([''soon''], True)"
  by (simp add: fragment_defs)

lemma parse_home:
  "Parse sample_engine None ''view/pages/index.html'' ''<h1>home</h1>''
     = Some (''index.html'', [(''index.html'', [Text ''<h1>home</h1>''])])"
  by (simp add: fragment_defs)

lemma exec_home:
  "Execute sample_engine (''index.html'', [(''index.html'', [Text ''<h1>home</h1>''])]) d
     = ([''<h1>home</h1>''], True)"
  by (simp add: fragment_defs)


section \<open>Validation of the page identifier\<close>

text \<open>
  C1. When the cleaned page identifier lacks the extension \<open>.html\<close>, or has a path name
  element \<open>..\<close>, or is absolute, render answers 404 with the message \<open>not found\<close> (which
  http.Error ends with a newline) and makes no filesystem call: the list of its
  filesystem calls is empty, whatever the filesystem and the template engine are.
\<close>

theorem render_rejects_unsafe_identifier:
  assumes "Ext (Clean f) \<noteq> ''.html'' \<or> ''..'' \<in> set (elements (Clean f)) \<or> IsAbs (Clean f)"
    and "\<not> wroteHeader w"
  shows "snd (render eng fs w f d) = [] \<and>
         status (fst (render eng fs w f d)) = 404 \<and>
         body (fst (render eng fs w f d)) = body w @ ''not found'' @ [CHR 0x0A]"
proof -
  from assms(1)
  have "Ext (Clean f) \<noteq> ''.html'' \<or> Contains (Clean f) ''..'' \<or> IsAbs (Clean f)"
    using element_Contains by blast
  then have "render eng fs w f d =
      (http_Error (Header_Set ''Content-Type'' ''text/html; charset=utf-8'' w)
         ''not found'' 404, [])"
    by (rule render_invalid)
  with assms(2) show ?thesis by (simp add: http_Error_fresh)
qed

theorem render_rejects_unsafe_identifier_witness:
  "''..'' \<in> set (elements (Clean ''../../etc/passwd'')) \<and>
   snd (render sample_engine sample_fs new_response ''../../etc/passwd'' NilData) = [] \<and>
   status (fst (render sample_engine sample_fs new_response ''../../etc/passwd'' NilData)) = 404 \<and>
   body (fst (render sample_engine sample_fs new_response ''../../etc/passwd'' NilData))
     = ''not found'' @ [CHR 0x0A] \<and>
   IsAbs (Clean ''/etc/passwd'') \<and>
   snd (render sample_engine sample_fs new_response ''/etc/passwd'' NilData) = [] \<and>
   status (fst (render sample_engine sample_fs new_response ''/etc/passwd'' NilData)) = 404 \<and>
   Ext (Clean ''pages/index'') \<noteq> ''.html'' \<and>
   snd (render sample_engine sample_fs new_response ''pages/index'' NilData) = [] \<and>
   status (fst (render sample_engine sample_fs new_response ''pages/index'' NilData)) = 404"
proof -
  have c1: "Clean ''../../etc/passwd'' = ''../../etc/passwd''"
    by (simp add: Clean_def IsAbs_def)
  have h1: "''..'' \<in> set (elements (Clean ''../../etc/passwd''))"
    unfolding c1 by simp
  have h2: "IsAbs (Clean ''/etc/passwd'')"
    by (simp add: Clean_def IsAbs_def)
  have h3: "Ext (Clean ''pages/index'') \<noteq> ''.html''"
    by (simp add: Clean_def IsAbs_def Ext_def)
  have fresh: "\<not> wroteHeader new_response" by simp
  from render_rejects_unsafe_identifier
         [of "''../../etc/passwd''" new_response sample_engine sample_fs NilData]
       render_rejects_unsafe_identifier
         [of "''/etc/passwd''" new_response sample_engine sample_fs NilData]
       render_rejects_unsafe_identifier
         [of "''pages/index''" new_response sample_engine sample_fs NilData]
       h1 h2 h3 fresh
  show ?thesis by simp
qed

text \<open>
  C10. The traversal check is a substring check. Every path name element \<open>..\<close> is caught
  by it, and so is every cleaned identifier that has two dots in a row anywhere: render
  answers 404 without a filesystem call. \<open>pages/a..b.html\<close> is such an identifier: it is
  its own cleaned form and none of its elements is \<open>..\<close>.
\<close>

theorem render_rejects_dotdot_substring:
  "(''..'' \<in> set (elements (Clean f)) \<longrightarrow> Contains (Clean f) ''..'') \<and>
   (Contains (Clean f) ''..'' \<and> \<not> wroteHeader w \<longrightarrow>
      snd (render eng fs w f d) = [] \<and>
      status (fst (render eng fs w f d)) = 404 \<and>
      body (fst (render eng fs w f d)) = body w @ ''not found'' @ [CHR 0x0A]) \<and>
   Clean ''pages/a..b.html'' = ''pages/a..b.html'' \<and>
   Contains (Clean ''pages/a..b.html'') ''..'' \<and>
   ''..'' \<notin> set (elements (Clean ''pages/a..b.html''))"
proof -
  have c: "Clean ''pages/a..b.html'' = ''pages/a..b.html''"
    by (simp add: Clean_def IsAbs_def)
  have sub: "Contains (Clean ''pages/a..b.html'') ''..''"
    unfolding c by simp
  have seg: "''..'' \<notin> set (elements (Clean ''pages/a..b.html''))"
    unfolding c by simp
  have rej: "snd (render eng fs w f d) = [] \<and>
      status (fst (render eng fs w f d)) = 404 \<and>
      body (fst (render eng fs w f d)) = body w @ ''not found'' @ [CHR 0x0A]"
    if "Contains (Clean f) ''..''" and "\<not> wroteHeader w"
  proof -
    from that(1) have "render eng fs w f d =
        (http_Error (Header_Set ''Content-Type'' ''text/html; charset=utf-8'' w)
           ''not found'' 404, [])"
      by (intro render_invalid) simp
    with that(2) show ?thesis by (simp add: http_Error_fresh)
  qed
  from c sub seg rej element_Contains show ?thesis by blast
qed

theorem render_rejects_dotdot_substring_witness:
  "Contains (Clean ''pages/a..b.html'') ''..'' \<and>
   ''..'' \<notin> set (elements (Clean ''pages/a..b.html'')) \<and>
   snd (render sample_engine sample_fs new_response ''pages/a..b.html'' NilData) = [] \<and>
   status (fst (render sample_engine sample_fs new_response ''pages/a..b.html'' NilData)) = 404 \<and>
   body (fst (render sample_engine sample_fs new_response ''pages/a..b.html'' NilData))
     = ''not found'' @ [CHR 0x0A]"
  using render_rejects_dotdot_substring
          [of "''pages/a..b.html''" new_response sample_engine sample_fs NilData]
  by simp

section \<open>The two ways of rendering\<close>

lemma parse_single:
  "ParseFiles eng fs [p] =
     ([ReadFile p],
      case os_ReadFile fs p of None \<Rightarrow> None | Some txt \<Rightarrow> Parse eng None p txt)"
  by (simp add: ParseFiles_def split: option.splits)

lemma render_fallback_log: "snd (render_fallback eng fs w p d) = [ReadFile p]"
  by (simp add: render_fallback_def parse_single split: option.splits)

lemma render_standalone:
  assumes "Ext (Clean f) = ''.html''" "\<not> Contains (Clean f) ''..''" "\<not> IsAbs (Clean f)"
    and "\<not> HasPrefix (Clean f) ''pages/'' \<or> fs (Join [''view'', Clean f]) = None"
  shows "render eng fs w f d =
           (fst (render_fallback eng fs (Header_Set ''Content-Type'' ''text/html; charset=utf-8'' w)
                   (Join [''view'', Clean f]) d),
            (if HasPrefix (Clean f) ''pages/'' then [Stat (Join [''view'', Clean f])] else [])
              @ [ReadFile (Join [''view'', Clean f])])"
  using assms render_fallback_log[of eng fs "Header_Set ''Content-Type'' ''text/html; charset=utf-8'' w" "Join [''view'', Clean f]" d]
  by (auto simp: render_def Let_def os_Stat_def split: prod.splits)

lemma render_layout:
  assumes "Ext (Clean f) = ''.html''" "\<not> Contains (Clean f) ''..''" "\<not> IsAbs (Clean f)"
    and "HasPrefix (Clean f) ''pages/''" "fs (Join [''view'', Clean f]) \<noteq> None"
  shows "render eng fs w f d =
           (case ParseFiles eng fs [''view/layout/base.html'', Join [''view'', Clean f]] of
              (ops, None) \<Rightarrow>
                (http_Error (Header_Set ''Content-Type'' ''text/html; charset=utf-8'' w)
                   ''template error'' 500, Stat (Join [''view'', Clean f]) # ops)
            | (ops, Some tmpl) \<Rightarrow>
                (run_template (Header_Set ''Content-Type'' ''text/html; charset=utf-8'' w)
                   (ExecuteTemplate eng tmpl ''base'' d), Stat (Join [''view'', Clean f]) # ops))"
proof -
  have b: "Join [''view'', ''layout'', ''base.html''] = ''view/layout/base.html''"
    by (simp add: Join_def Clean_def IsAbs_def)
  show ?thesis using assms by (simp add: render_def Let_def os_Stat_def b)
qed

lemma Writes_sent:
  "wroteHeader w \<Longrightarrow> wroteHeader (Writes cs w) \<and> status (Writes cs w) = status w \<and>
     sent (Writes cs w) = sent w \<and> body (Writes cs w) = body w @ concat cs"
  by (induction cs arbitrary: w) (auto simp: Write_def)

lemma Write_fresh:
  "\<not> wroteHeader w \<Longrightarrow> wroteHeader (Write bs w) \<and> status (Write bs w) = 200 \<and>
     sent (Write bs w) = header w \<and> body (Write bs w) = body w @ bs"
  by (simp add: Write_def WriteHeader_def)

lemma Writes_fresh:
  assumes "\<not> wroteHeader w" "cs \<noteq> []"
  shows "wroteHeader (Writes cs w) \<and> status (Writes cs w) = 200 \<and>
     sent (Writes cs w) = header w \<and> body (Writes cs w) = body w @ concat cs"
proof (cases cs)
  case Nil with assms show ?thesis by simp
next
  case (Cons b bs)
  with Write_fresh[OF assms(1), of b] Writes_sent[of "Write b w" bs]
  show ?thesis by simp
qed



lemma render_fallback_fst:
  "fst (render_fallback eng fs w p d) =
     (case os_ReadFile fs p of
        None \<Rightarrow> http_Error w ''template error'' 500
      | Some txt \<Rightarrow>
          (case Parse eng None p txt of
             None \<Rightarrow> http_Error w ''template error'' 500
           | Some tmpl \<Rightarrow> run_template w (Execute eng tmpl d)))"
  by (simp add: render_fallback_def parse_single split: option.splits)

text \<open>
  C2, as amended. For a page identifier that passes validation, when its cleaned form
  does not begin with \<open>pages/\<close>, or the page file is missing when render looks for it,
  render reads and parses the resolved file alone and executes it against the payload.
  Whether the base layout exists is no part of the decision: render never checks it.
\<close>

theorem render_standalone_fallback:
  assumes "Ext (Clean f) = ''.html''" and "\<not> Contains (Clean f) ''..''" and "\<not> IsAbs (Clean f)"
    and "\<not> HasPrefix (Clean f) ''pages/'' \<or> fs (Join [''view'', Clean f]) = None"
  shows "snd (render eng fs w f d) =
           (if HasPrefix (Clean f) ''pages/'' then [Stat (Join [''view'', Clean f])] else [])
             @ [ReadFile (Join [''view'', Clean f])] \<and>
         fst (render eng fs w f d) =
           (case os_ReadFile fs (Join [''view'', Clean f]) of
              None \<Rightarrow>
                http_Error (Header_Set ''Content-Type'' ''text/html; charset=utf-8'' w)
                  ''template error'' 500
            | Some txt \<Rightarrow>
                (case Parse eng None (Join [''view'', Clean f]) txt of
                   None \<Rightarrow>
                     http_Error (Header_Set ''Content-Type'' ''text/html; charset=utf-8'' w)
                       ''template error'' 500
                 | Some tmpl \<Rightarrow>
                     run_template (Header_Set ''Content-Type'' ''text/html; charset=utf-8'' w)
                       (Execute eng tmpl d)))"
  using render_standalone[where f = f and fs = fs and eng = eng and w = w and d = d] assms
  by (simp add: render_fallback_fst)

lemma clean_ud: "Clean ''under-development.html'' = ''under-development.html''"
  by (simp add: Clean_def IsAbs_def)

lemma join_ud: "Join [''view'', ''under-development.html''] = ''view/under-development.html''"
  by (simp add: Join_def Clean_def IsAbs_def)

theorem render_standalone_fallback_witness:
  "Ext (Clean ''under-development.html'') = ''.html'' \<and>
   \<not> Contains (Clean ''under-development.html'') ''..'' \<and>
   \<not> IsAbs (Clean ''under-development.html'') \<and>
   \<not> HasPrefix (Clean ''under-development.html'') ''pages/'' \<and>
   snd (render sample_engine sample_fs new_response ''under-development.html'' NilData)
     = [ReadFile ''view/under-development.html''] \<and>
   body (fst (render sample_engine sample_fs new_response ''under-development.html'' NilData))
     = ''soon'' \<and>
   status (fst (render sample_engine sample_fs new_response ''under-development.html'' NilData))
     = 200"
proof -
  have h1: "Ext (Clean ''under-development.html'') = ''.html''"
    by (simp add: clean_ud Ext_def)
  have h2: "\<not> Contains (Clean ''under-development.html'') ''..''"
    by (simp add: clean_ud)
  have h3: "\<not> IsAbs (Clean ''under-development.html'')"
    by (simp add: clean_ud IsAbs_def)
  have h4: "\<not> HasPrefix (Clean ''under-development.html'') ''pages/''"
    by (simp add: clean_ud HasPrefix_def)
  have rd: "os_ReadFile sample_fs ''view/under-development.html'' = Some ''soon''"
    by (simp add: os_ReadFile_def sample_fs_def)
  from render_standalone_fallback
         [where f = "''under-development.html''" and fs = sample_fs and eng = sample_engine
            and w = new_response and d = NilData] h1 h2 h3 h4
  have "snd (render sample_engine sample_fs new_response ''under-development.html'' NilData)
          = [ReadFile ''view/under-development.html'']"
   and "fst (render sample_engine sample_fs new_response ''under-development.html'' NilData)
          = run_template (Header_Set ''Content-Type'' ''text/html; charset=utf-8'' new_response)
              ([''soon''], True)"
    by (simp_all add: clean_ud join_ud rd parse_soon exec_soon)
  with h1 h2 h3 h4 show ?thesis
    by (simp add: run_template_def Write_def WriteHeader_def)
qed

text \<open>
  C2 as stated fails when the page exists and the base layout is missing: render still
  attempts the composition, reads the missing layout and answers 500, where the
  standalone rendering of the page would have written the page.
\<close>

theorem render_missing_base_counterexample:
  "Ext (Clean ''pages/index.html'') = ''.html'' \<and>
   pages_only_fs ''view/layout/base.html'' = None \<and>
   snd (render sample_engine pages_only_fs new_response ''pages/index.html'' NilData)
     = [Stat ''view/pages/index.html'', ReadFile ''view/layout/base.html''] \<and>
   status (fst (render sample_engine pages_only_fs new_response ''pages/index.html'' NilData))
     = 500 \<and>
   body (fst (render sample_engine pages_only_fs new_response ''pages/index.html'' NilData))
     = ''template error'' @ [CHR 0x0A] \<and>
   body (fst (render_fallback sample_engine pages_only_fs new_response
                ''view/pages/index.html'' NilData)) = ''<h1>home</h1>''"
proof -
  have c: "Clean ''pages/index.html'' = ''pages/index.html''"
    by (simp add: Clean_def IsAbs_def)
  have j: "Join [''view'', ''pages/index.html''] = ''view/pages/index.html''"
    by (simp add: Join_def Clean_def IsAbs_def)
  have h1: "Ext (Clean ''pages/index.html'') = ''.html''" by (simp add: c Ext_def)
  have h2: "\<not> Contains (Clean ''pages/index.html'') ''..''" by (simp add: c)
  have h3: "\<not> IsAbs (Clean ''pages/index.html'')" by (simp add: c IsAbs_def)
  have h4: "HasPrefix (Clean ''pages/index.html'') ''pages/''" by (simp add: c HasPrefix_def)
  have h5: "pages_only_fs (Join [''view'', Clean ''pages/index.html'']) \<noteq> None"
    by (simp add: c j pages_only_fs_def)
  have nb: "pages_only_fs ''view/layout/base.html'' = None"
    by (simp add: pages_only_fs_def)
  have pf: "ParseFiles sample_engine pages_only_fs
              [''view/layout/base.html'', ''view/pages/index.html'']
            = ([ReadFile ''view/layout/base.html''], None)"
    by (simp add: ParseFiles_def os_ReadFile_def nb)
  have r: "render sample_engine pages_only_fs new_response ''pages/index.html'' NilData =
      (http_Error (Header_Set ''Content-Type'' ''text/html; charset=utf-8'' new_response)
         ''template error'' 500,
       [Stat ''view/pages/index.html'', ReadFile ''view/layout/base.html''])"
    using render_layout
            [where f = "''pages/index.html''" and fs = pages_only_fs and eng = sample_engine
               and w = new_response and d = NilData] h1 h2 h3 h4 h5
    by (simp add: c j pf)
  have fb: "body (fst (render_fallback sample_engine pages_only_fs new_response
                ''view/pages/index.html'' NilData)) = ''<h1>home</h1>''"
    by (simp add: render_fallback_fst os_ReadFile_def pages_only_fs_def parse_home exec_home
          run_template_def Write_def WriteHeader_def)
  from h1 nb r fb show ?thesis by (simp add: http_Error_fresh)
qed

text \<open>
  C5. For a page identifier that has passed validation and whose cleaned form
  begins with \<open>pages/\<close>, when the page file does not exist, render does not answer 404:
  after the failed Stat it tries to parse that same file alone, which fails, and the
  answer is 500 with the message \<open>template error\<close>.
\<close>

theorem render_missing_page_is_500:
  assumes "Ext (Clean f) = ''.html''" and "\<not> Contains (Clean f) ''..''" and "\<not> IsAbs (Clean f)"
    and "HasPrefix (Clean f) ''pages/''"
    and "fs (Join [''view'', Clean f]) = None"
    and "\<not> wroteHeader w"
  shows "snd (render eng fs w f d) =
           [Stat (Join [''view'', Clean f]), ReadFile (Join [''view'', Clean f])] \<and>
         status (fst (render eng fs w f d)) = 500 \<and>
         body (fst (render eng fs w f d)) = body w @ ''template error'' @ [CHR 0x0A]"
proof -
  have rd: "os_ReadFile fs (Join [''view'', Clean f]) = None"
    using assms(5) by (simp add: os_ReadFile_def)
  have "render eng fs w f d =
      (http_Error (Header_Set ''Content-Type'' ''text/html; charset=utf-8'' w)
         ''template error'' 500,
       [Stat (Join [''view'', Clean f]), ReadFile (Join [''view'', Clean f])])"
    using render_standalone[where f = f and fs = fs and eng = eng and w = w and d = d] assms(1-5)
    by (simp add: render_fallback_fst rd)
  with assms(6) show ?thesis by (simp add: http_Error_fresh)
qed

lemma clean_gone: "Clean ''pages/gone.html'' = ''pages/gone.html''"
  by (simp add: Clean_def IsAbs_def)

lemma join_gone: "Join [''view'', ''pages/gone.html''] = ''view/pages/gone.html''"
  by (simp add: Join_def Clean_def IsAbs_def)

theorem render_missing_page_is_500_witness:
  "Ext (Clean ''pages/gone.html'') = ''.html'' \<and>
   \<not> Contains (Clean ''pages/gone.html'') ''..'' \<and>
   \<not> IsAbs (Clean ''pages/gone.html'') \<and>
   HasPrefix (Clean ''pages/gone.html'') ''pages/'' \<and>
   sample_fs (Join [''view'', Clean ''pages/gone.html'']) = None \<and>
   snd (render sample_engine sample_fs new_response ''pages/gone.html'' NilData)
     = [Stat ''view/pages/gone.html'', ReadFile ''view/pages/gone.html''] \<and>
   status (fst (render sample_engine sample_fs new_response ''pages/gone.html'' NilData)) = 500 \<and>
   body (fst (render sample_engine sample_fs new_response ''pages/gone.html'' NilData))
     = ''template error'' @ [CHR 0x0A]"
proof -
  have h1: "Ext (Clean ''pages/gone.html'') = ''.html''" by (simp add: clean_gone Ext_def)
  have h2: "\<not> Contains (Clean ''pages/gone.html'') ''..''" by (simp add: clean_gone)
  have h3: "\<not> IsAbs (Clean ''pages/gone.html'')" by (simp add: clean_gone IsAbs_def)
  have h4: "HasPrefix (Clean ''pages/gone.html'') ''pages/''"
    by (simp add: clean_gone HasPrefix_def)
  have h5: "sample_fs (Join [''view'', Clean ''pages/gone.html'']) = None"
    by (simp add: clean_gone join_gone sample_fs_def)
  from render_missing_page_is_500
         [where f = "''pages/gone.html''" and fs = sample_fs and eng = sample_engine
            and w = new_response and d = NilData] h1 h2 h3 h4 h5
  show ?thesis by (simp add: clean_gone join_gone)
qed

section \<open>Where a valid identifier is resolved\<close>

lemma elements_append_sep:
  "CHR ''/'' \<notin> set a \<Longrightarrow> elements (a @ CHR ''/'' # r) = a # elements r"
  by (induction a) auto

lemma elements_single: "CHR ''/'' \<notin> set a \<Longrightarrow> elements a = [a]"
  by (induction a) auto












section \<open>The template fragment on a layout and a page\<close>

lemma lex_text_end: "CHR ''{'' \<notin> set A \<Longrightarrow> lex_text acc A = flush (rev A @ acc)"
proof (induction A arbitrary: acc)
  case Nil
  show ?case by simp
next
  case (Cons a A)
  then show ?case by (cases A) auto
qed


lemma flush_Nil [simp]: "flush [] = []"
  by (simp add: flush_def)













section \<open>The content type of the response\<close>

lemma http_Error_content_type:
  assumes "\<not> wroteHeader w"
  shows "sent (http_Error w msg code) ''Content-Type'' = Some ''text/plain; charset=utf-8''"
  using assms by (simp add: http_Error_fresh)

lemma run_template_content_type:
  assumes "\<not> wroteHeader w" and "header w ''Content-Type'' = Some ''text/html; charset=utf-8''"
  shows "(wroteHeader (run_template w x) \<longrightarrow>
            (status (run_template w x) = 200 \<and>
             sent (run_template w x) ''Content-Type'' = Some ''text/html; charset=utf-8'') \<or>
            (status (run_template w x) = 500 \<and>
             sent (run_template w x) ''Content-Type'' = Some ''text/plain; charset=utf-8'')) \<and>
         (\<not> wroteHeader (run_template w x) \<longrightarrow>
            header (run_template w x) ''Content-Type'' = Some ''text/html; charset=utf-8'')"
proof (cases x)
  case (Pair chunks ok)
  show ?thesis
  proof (cases "chunks = []")
    case True
    with Pair assms show ?thesis
      by (cases ok) (simp_all add: run_template_def http_Error_fresh)
  next
    case False
    from Writes_fresh[OF assms(1) False] assms(2)
    have w: "wroteHeader (Writes chunks w)" "status (Writes chunks w) = 200"
      "sent (Writes chunks w) ''Content-Type'' = Some ''text/html; charset=utf-8''"
      by simp_all
    with Pair show ?thesis
      by (cases ok) (simp_all add: run_template_def http_Error_sent)
  qed
qed

text \<open>
  C6, as amended. render sets the content type \<open>text/html; charset=utf-8\<close> first, on
  every call, so a response whose header goes out with the template's bytes (status 200)
  carries it, and so does a response of which nothing has been sent when render returns.
  On the 404 and 500 paths reached before any byte was written, http.Error replaces the
  content type by \<open>text/plain; charset=utf-8\<close> together with the status code.
\<close>

theorem render_content_type:
  assumes "\<not> wroteHeader w"
  shows "(wroteHeader (fst (render eng fs w f d)) \<longrightarrow>
            (status (fst (render eng fs w f d)) = 200 \<and>
             sent (fst (render eng fs w f d)) ''Content-Type'' = Some ''text/html; charset=utf-8'') \<or>
            ((status (fst (render eng fs w f d)) = 404 \<or> status (fst (render eng fs w f d)) = 500) \<and>
             sent (fst (render eng fs w f d)) ''Content-Type'' = Some ''text/plain; charset=utf-8'')) \<and>
         (\<not> wroteHeader (fst (render eng fs w f d)) \<longrightarrow>
            header (fst (render eng fs w f d)) ''Content-Type'' = Some ''text/html; charset=utf-8'')"
proof -
  let ?w = "Header_Set ''Content-Type'' ''text/html; charset=utf-8'' w"
  let ?P = "\<lambda>r. (wroteHeader r \<longrightarrow>
            (status r = 200 \<and> sent r ''Content-Type'' = Some ''text/html; charset=utf-8'') \<or>
            ((status r = 404 \<or> status r = 500) \<and>
             sent r ''Content-Type'' = Some ''text/plain; charset=utf-8'')) \<and>
         (\<not> wroteHeader r \<longrightarrow> header r ''Content-Type'' = Some ''text/html; charset=utf-8'')"
  have fresh: "\<not> wroteHeader ?w" using assms by simp
  have ct: "header ?w ''Content-Type'' = Some ''text/html; charset=utf-8''" by simp
  have err: "?P (http_Error ?w msg code)" if "code = 404 \<or> code = 500" for msg code
    using that fresh by (auto simp: http_Error_fresh)
  have run: "?P (run_template ?w x)" for x
    using run_template_content_type[OF fresh ct, of x] by blast
  have fb: "?P (fst (render_fallback eng fs ?w p d))" for p
    unfolding render_fallback_fst using err[of 500 "''template error''"] run
    by (simp split: option.splits)
  consider (invalid) "Ext (Clean f) \<noteq> ''.html'' \<or> Contains (Clean f) ''..'' \<or> IsAbs (Clean f)"
    | (layout) "Ext (Clean f) = ''.html''" "\<not> Contains (Clean f) ''..''" "\<not> IsAbs (Clean f)"
        "HasPrefix (Clean f) ''pages/''" "fs (Join [''view'', Clean f]) \<noteq> None"
    | (standalone) "Ext (Clean f) = ''.html''" "\<not> Contains (Clean f) ''..''" "\<not> IsAbs (Clean f)"
        "\<not> HasPrefix (Clean f) ''pages/'' \<or> fs (Join [''view'', Clean f]) = None"
    by blast
  then have "?P (fst (render eng fs w f d))"
  proof cases
    case invalid
    then have "fst (render eng fs w f d) = http_Error ?w ''not found'' 404"
      by (simp add: render_invalid)
    with err[of 404 "''not found''"] show ?thesis by simp
  next
    case layout
    obtain ops r where pf:
      "ParseFiles eng fs [''view/layout/base.html'', Join [''view'', Clean f]] = (ops, r)"
      by (cases "ParseFiles eng fs [''view/layout/base.html'', Join [''view'', Clean f]]")
    have eq: "fst (render eng fs w f d) =
        (case r of None \<Rightarrow> http_Error ?w ''template error'' 500
         | Some tmpl \<Rightarrow> run_template ?w (ExecuteTemplate eng tmpl ''base'' d))"
      using render_layout[where f = f and fs = fs and eng = eng and w = w and d = d] layout
      by (simp add: pf split: option.splits)
    show ?thesis
    proof (cases r)
      case None
      with eq err[of 500 "''template error''"] show ?thesis by simp
    next
      case (Some tmpl)
      with eq run[of "ExecuteTemplate eng tmpl ''base'' d"] show ?thesis by simp
    qed
  next
    case standalone
    have "fst (render eng fs w f d) = fst (render_fallback eng fs ?w (Join [''view'', Clean f]) d)"
      using render_standalone[where f = f and fs = fs and eng = eng and w = w and d = d] standalone
      by simp
    with fb show ?thesis by simp
  qed
  then show ?thesis by blast
qed

theorem render_content_type_witness:
  "\<not> wroteHeader new_response \<and>
   status (fst (render sample_engine sample_fs new_response ''under-development.html'' NilData)) = 200 \<and>
   sent (fst (render sample_engine sample_fs new_response ''under-development.html'' NilData))
     ''Content-Type'' = Some ''text/html; charset=utf-8''"
proof -
  have fresh: "\<not> wroteHeader new_response" by simp
  have r: "fst (render sample_engine sample_fs new_response ''under-development.html'' NilData)
          = run_template (Header_Set ''Content-Type'' ''text/html; charset=utf-8'' new_response)
              ([''soon''], True)"
    using render_standalone
            [where f = "''under-development.html''" and fs = sample_fs and eng = sample_engine
               and w = new_response and d = NilData]
    by (simp add: clean_ud join_ud Ext_def IsAbs_def HasPrefix_def render_fallback_fst
          os_ReadFile_def sample_fs_def parse_soon exec_soon)
  have s: "wroteHeader (fst (render sample_engine sample_fs new_response ''under-development.html'' NilData))"
          "status (fst (render sample_engine sample_fs new_response ''under-development.html'' NilData)) = 200"
    unfolding r by (simp_all add: run_template_def Write_def WriteHeader_def)
  from render_content_type[OF fresh, of sample_engine sample_fs "''under-development.html''" NilData] s
  show ?thesis by simp
qed

text \<open>
  C6 as stated has only the status code overridden on the error paths. The 404 reply to
  \<open>pages/index\<close> goes out as plain text.
\<close>

theorem render_error_content_type_counterexample:
  "status (fst (render sample_engine sample_fs new_response ''pages/index'' NilData)) = 404 \<and>
   sent (fst (render sample_engine sample_fs new_response ''pages/index'' NilData))
     ''Content-Type'' = Some ''text/plain; charset=utf-8'' \<and>
   sent (fst (render sample_engine sample_fs new_response ''pages/index'' NilData))
     ''X-Content-Type-Options'' = Some ''nosniff''"
proof -
  have e: "Ext (Clean ''pages/index'') \<noteq> ''.html''"
    by (simp add: Clean_def IsAbs_def Ext_def)
  have r: "render sample_engine sample_fs new_response ''pages/index'' NilData =
      (http_Error (Header_Set ''Content-Type'' ''text/html; charset=utf-8'' new_response)
         ''not found'' 404, [])"
    by (rule render_invalid) (simp add: e)
  show ?thesis by (simp add: r http_Error_fresh)
qed

section \<open>The authentication middleware\<close>

lemma authMiddleware_cases:
  "authMiddleware env next req w =
     (if basic_auth req =
           Some (if Getenv env ''BASIC_USER'' = [] then ''admin'' else Getenv env ''BASIC_USER'',
                 if Getenv env ''BASIC_PASS'' = [] then ''0987654321'' else Getenv env ''BASIC_PASS'')
      then next req w
      else (http_Error (Header_Set ''WWW-Authenticate'' ''Basic realm=Restricted'' w)
              ''Unauthorized'' 401, []))"
  by (auto simp: authMiddleware_def BasicAuth_def Let_def split: option.splits)

lemma resolve_env:
  "(if Getenv env k = [] then dflt else Getenv env k) =
     (case env k of None \<Rightarrow> dflt | Some v \<Rightarrow> if v = [] then dflt else v)"
  by (simp add: Getenv_def split: option.splits)

text \<open>
  C4. The middleware resolves the expected pair when it is built: the user from
  \<open>BASIC_USER\<close>, the password from \<open>BASIC_PASS\<close>, each replaced by its built-in default
  when unset or empty. A request whose credentials are exactly that pair is handed to the
  wrapped handler, with the same request and response writer. Any other request (no
  credentials, malformed ones, or a pair that differs in any byte) gets 401 with the
  \<open>WWW-Authenticate\<close> challenge and the body \<open>Unauthorized\<close>; the reply does not depend on
  the wrapped handler, which is not called.
\<close>

theorem authMiddleware_gate:
  assumes "expectedUser =
             (case env ''BASIC_USER'' of None \<Rightarrow> ''admin''
              | Some v \<Rightarrow> if v = [] then ''admin'' else v)"
    and "expectedPass =
             (case env ''BASIC_PASS'' of None \<Rightarrow> ''0987654321''
              | Some v \<Rightarrow> if v = [] then ''0987654321'' else v)"
  shows "(basic_auth req = Some (expectedUser, expectedPass) \<longrightarrow>
            authMiddleware env next req w = next req w) \<and>
         (basic_auth req \<noteq> Some (expectedUser, expectedPass) \<longrightarrow>
            authMiddleware env next req w =
              (http_Error (Header_Set ''WWW-Authenticate'' ''Basic realm=Restricted'' w)
                 ''Unauthorized'' 401, []) \<and>
            (\<not> wroteHeader w \<longrightarrow>
               status (fst (authMiddleware env next req w)) = 401 \<and>
               sent (fst (authMiddleware env next req w)) ''WWW-Authenticate''
                 = Some ''Basic realm=Restricted'' \<and>
               body (fst (authMiddleware env next req w))
                 = body w @ ''Unauthorized'' @ [CHR 0x0A]))"
  unfolding authMiddleware_cases resolve_env assms[symmetric]
  by (simp add: http_Error_fresh)


lemma sample_request_fields [simp]:
  "url_path (sample_request p c) = p"
  "basic_auth (sample_request p c) = c"
  "vars (sample_request p c) = Map.empty"
  by (simp_all add: sample_request_def)

theorem authMiddleware_gate_witness:
  "authMiddleware sample_env (page sample_engine sample_fs ''pages/index.html'') (sample_request ''/'' (Some (''alice'', ''secret''))) new_response
     = (page sample_engine sample_fs ''pages/index.html'') (sample_request ''/'' (Some (''alice'', ''secret''))) new_response \<and>
   status (fst (authMiddleware sample_env (page sample_engine sample_fs ''pages/index.html'')
                  (sample_request ''/'' (Some (''alice'', ''wrong''))) new_response)) = 401 \<and>
   sent (fst (authMiddleware sample_env (page sample_engine sample_fs ''pages/index.html'')
                  (sample_request ''/'' (Some (''alice'', ''wrong''))) new_response))
     ''WWW-Authenticate'' = Some ''Basic realm=Restricted'' \<and>
   body (fst (authMiddleware sample_env (page sample_engine sample_fs ''pages/index.html'')
                  (sample_request ''/'' (Some (''alice'', ''wrong''))) new_response))
     = ''Unauthorized'' @ [CHR 0x0A] \<and>
   status (fst (authMiddleware sample_env (page sample_engine sample_fs ''pages/index.html'')
                  (sample_request ''/'' (Some (''Alice'', ''secret''))) new_response)) = 401 \<and>
   status (fst (authMiddleware sample_env (page sample_engine sample_fs ''pages/index.html'') (sample_request ''/'' None) new_response)) = 401 \<and>
   authMiddleware Map.empty (page sample_engine sample_fs ''pages/index.html'')
       (sample_request ''/'' (Some (''admin'', ''0987654321''))) new_response
     = (page sample_engine sample_fs ''pages/index.html'') (sample_request ''/'' (Some (''admin'', ''0987654321''))) new_response \<and>
   status (fst (authMiddleware Map.empty (page sample_engine sample_fs ''pages/index.html'')
                  (sample_request ''/'' (Some (''admin'', ''admin''))) new_response)) = 401"
proof -
  have u: "''alice'' = (case sample_env ''BASIC_USER'' of None \<Rightarrow> ''admin''
              | Some v \<Rightarrow> if v = [] then ''admin'' else v)"
    by (simp add: sample_env_def)
  have p: "''secret'' = (case sample_env ''BASIC_PASS'' of None \<Rightarrow> ''0987654321''
              | Some v \<Rightarrow> if v = [] then ''0987654321'' else v)"
    by (simp add: sample_env_def)
  have u0: "''admin'' = (case (Map.empty :: string \<rightharpoonup> string) ''BASIC_USER'' of None \<Rightarrow> ''admin''
              | Some v \<Rightarrow> if v = [] then ''admin'' else v)"
    by simp
  have p0: "''0987654321'' = (case (Map.empty :: string \<rightharpoonup> string) ''BASIC_PASS'' of
                None \<Rightarrow> ''0987654321''
              | Some v \<Rightarrow> if v = [] then ''0987654321'' else v)"
    by simp
  have a1: "authMiddleware sample_env (page sample_engine sample_fs ''pages/index.html'') (sample_request ''/'' (Some (''alice'', ''secret''))) new_response
     = (page sample_engine sample_fs ''pages/index.html'') (sample_request ''/'' (Some (''alice'', ''secret''))) new_response"
    using authMiddleware_gate[OF u p, of "sample_request ''/'' (Some (''alice'', ''secret''))" "page sample_engine sample_fs ''pages/index.html''" new_response]
    by (simp add: http_Error_fresh)
  have a2: "status (fst (authMiddleware sample_env (page sample_engine sample_fs ''pages/index.html'')
                  (sample_request ''/'' (Some (''alice'', ''wrong''))) new_response)) = 401 \<and>
   sent (fst (authMiddleware sample_env (page sample_engine sample_fs ''pages/index.html'')
                  (sample_request ''/'' (Some (''alice'', ''wrong''))) new_response))
     ''WWW-Authenticate'' = Some ''Basic realm=Restricted'' \<and>
   body (fst (authMiddleware sample_env (page sample_engine sample_fs ''pages/index.html'')
                  (sample_request ''/'' (Some (''alice'', ''wrong''))) new_response))
     = ''Unauthorized'' @ [CHR 0x0A]"
    using authMiddleware_gate[OF u p, of "sample_request ''/'' (Some (''alice'', ''wrong''))" "page sample_engine sample_fs ''pages/index.html''" new_response]
    by (simp add: http_Error_fresh)
  have a3: "status (fst (authMiddleware sample_env (page sample_engine sample_fs ''pages/index.html'')
                  (sample_request ''/'' (Some (''Alice'', ''secret''))) new_response)) = 401"
    using authMiddleware_gate[OF u p, of "sample_request ''/'' (Some (''Alice'', ''secret''))" "page sample_engine sample_fs ''pages/index.html''" new_response]
    by (simp add: http_Error_fresh)
  have a4: "status (fst (authMiddleware sample_env (page sample_engine sample_fs ''pages/index.html'') (sample_request ''/'' None) new_response)) = 401"
    using authMiddleware_gate[OF u p, of "sample_request ''/'' None" "page sample_engine sample_fs ''pages/index.html''" new_response]
    by (simp add: http_Error_fresh)
  have a5: "authMiddleware Map.empty (page sample_engine sample_fs ''pages/index.html'')
       (sample_request ''/'' (Some (''admin'', ''0987654321''))) new_response
     = (page sample_engine sample_fs ''pages/index.html'') (sample_request ''/'' (Some (''admin'', ''0987654321''))) new_response"
    using authMiddleware_gate[OF u0 p0, of "sample_request ''/'' (Some (''admin'', ''0987654321''))" "page sample_engine sample_fs ''pages/index.html''" new_response]
    by (simp add: http_Error_fresh)
  have a6: "status (fst (authMiddleware Map.empty (page sample_engine sample_fs ''pages/index.html'')
                  (sample_request ''/'' (Some (''admin'', ''admin''))) new_response)) = 401"
    using authMiddleware_gate[OF u0 p0, of "sample_request ''/'' (Some (''admin'', ''admin''))" "page sample_engine sample_fs ''pages/index.html''" new_response]
    by (simp add: http_Error_fresh)
  from a1 a2 a3 a4 a5 a6 show ?thesis by blast
qed

section \<open>The routes\<close>

lemma Match_blog:
  assumes "s \<noteq> []" and "CHR ''/'' \<notin> set s"
  shows "Match (routes eng fsv fs) (''/blog/'' @ s)
           = Some (blog_detail eng fs, Map.empty(''slug'' \<mapsto> s))"
  using assms by (simp add: routes_def HasPrefix_def)




text \<open>The paths \<open>/blog/s\<close> that the router does not redirect.\<close>

lemma blog_path_canonical:
  assumes "s \<noteq> []" and "CHR ''/'' \<notin> set s" and "s \<noteq> ''.''" and "s \<noteq> ''..''"
  shows "cleanPath (''/blog/'' @ s) = ''/blog/'' @ s"
proof -
  define p where "p = ''/blog/'' @ s"
  have "elements p = [[], ''blog'', s]"
    unfolding p_def
    using elements_append_sep[of "[]" "''blog/'' @ s"] elements_append_sep[of "''blog''" s]
      elements_single[OF assms(2)]
    by simp
  then have ce: "clean_elems True [] (elements p) = [''blog'', s]"
    using assms by simp
  have abs: "IsAbs p" by (simp add: p_def IsAbs_def)
  have c: "Clean p = p"
    using abs by (simp add: Clean_def Let_def ce) (simp add: p_def)
  have ls: "last s \<noteq> CHR ''/''" using assms(1,2) last_in_set by metis
  have l: "last p \<noteq> CHR ''/''" using assms(1) ls by (simp add: p_def)
  have "cleanPath p = p"
    using l by (simp add: cleanPath_def Let_def c) (simp add: p_def)
  then show ?thesis by (simp add: p_def)
qed

text \<open>
  C7. A request whose path is \<open>/blog/\<close> followed by one non-empty segment matches the
  route \<open>/blog/{slug}\<close> and no earlier one; the variable \<open>slug\<close> is that segment, byte for
  byte, and the handler calls render with the identifier \<open>pages/blogDetails.html\<close> and
  the payload that maps \<open>Slug\<close> to it. The router hands the request to the route unless
  the segment is \<open>.\<close> or \<open>..\<close>, which it redirects; with the expected credentials the
  reply of the whole server is then that call of render. (The routes are registered
  without a method, so the request method plays no part.)
\<close>

theorem blog_detail_route:
  assumes "url_path req = ''/blog/'' @ s" and "s \<noteq> []" and "CHR ''/'' \<notin> set s"
    and "s \<noteq> ''.''" and "s \<noteq> ''..''"
  shows "cleanPath (url_path req) = url_path req \<and>
         Match (routes eng fsv fs) (url_path req)
           = Some (blog_detail eng fs, Map.empty(''slug'' \<mapsto> s)) \<and>
         blog_detail eng fs (req\<lparr>vars := Map.empty(''slug'' \<mapsto> s)\<rparr>) w
           = render eng fs w ''pages/blogDetails.html'' (MapData (Map.empty(''Slug'' \<mapsto> s))) \<and>
         (basic_auth req =
             Some (if Getenv env ''BASIC_USER'' = [] then ''admin'' else Getenv env ''BASIC_USER'',
                   if Getenv env ''BASIC_PASS'' = [] then ''0987654321''
                   else Getenv env ''BASIC_PASS'') \<longrightarrow>
          ServeHTTP env eng fsv fs req w
            = render eng fs w ''pages/blogDetails.html'' (MapData (Map.empty(''Slug'' \<mapsto> s))))"
proof -
  have cp: "cleanPath (url_path req) = url_path req"
    unfolding assms(1) using assms(2-5) by (rule blog_path_canonical)
  have m: "Match (routes eng fsv fs) (url_path req)
           = Some (blog_detail eng fs, Map.empty(''slug'' \<mapsto> s))"
    unfolding assms(1) using assms(2,3) by (rule Match_blog)
  have h: "blog_detail eng fs (req\<lparr>vars := Map.empty(''slug'' \<mapsto> s)\<rparr>) w
           = render eng fs w ''pages/blogDetails.html'' (MapData (Map.empty(''Slug'' \<mapsto> s)))"
    by (simp add: blog_detail_def)
  have "ServeHTTP env eng fsv fs req w
          = authMiddleware env (blog_detail eng fs) (req\<lparr>vars := Map.empty(''slug'' \<mapsto> s)\<rparr>) w"
    by (simp add: ServeHTTP_def m cp)
  with cp m h show ?thesis by (simp add: authMiddleware_cases)
qed

theorem blog_detail_route_witness:
  "url_path (sample_request ''/blog/my-first-post'' (Some (''alice'', ''secret'')))
     = ''/blog/'' @ ''my-first-post'' \<and>
   CHR ''/'' \<notin> set ''my-first-post'' \<and>
   Match (routes sample_engine (FileServer sample_lib) sample_fs) ''/blog/my-first-post''
     = Some (blog_detail sample_engine sample_fs, Map.empty(''slug'' \<mapsto> ''my-first-post'')) \<and>
   ServeHTTP sample_env sample_engine (FileServer sample_lib) sample_fs
       (sample_request ''/blog/my-first-post'' (Some (''alice'', ''secret''))) new_response
     = render sample_engine sample_fs new_response ''pages/blogDetails.html''
         (MapData (Map.empty(''Slug'' \<mapsto> ''my-first-post'')))"
proof -
  have h1: "url_path (sample_request ''/blog/my-first-post'' (Some (''alice'', ''secret'')))
     = ''/blog/'' @ ''my-first-post''" by simp
  have h2: "''my-first-post'' \<noteq> []" by simp
  have h3: "CHR ''/'' \<notin> set ''my-first-post''" by simp
  have h4: "''my-first-post'' \<noteq> ''.''" by simp
  have h5: "''my-first-post'' \<noteq> ''..''" by simp
  have cred: "basic_auth (sample_request ''/blog/my-first-post'' (Some (''alice'', ''secret''))) =
      Some (if Getenv sample_env ''BASIC_USER'' = [] then ''admin'' else Getenv sample_env ''BASIC_USER'',
            if Getenv sample_env ''BASIC_PASS'' = [] then ''0987654321''
            else Getenv sample_env ''BASIC_PASS'')"
    by (simp add: Getenv_def sample_env_def)
  note th = blog_detail_route[OF h1 h2 h3 h4 h5, of sample_engine "FileServer sample_lib" sample_fs
              new_response sample_env]
  from th[THEN conjunct2, THEN conjunct1] th[THEN conjunct2, THEN conjunct2, THEN conjunct2] cred h3
  show ?thesis by simp
qed










end
